theory Spec2Isabelle
  imports Main
begin

section \<open>Shared vocabulary\<close>

text \<open>
  A JavaScript exception is a value: \<open>Error msg\<close> stands for \<open>new Error(msg)\<close>.
  An awaited collaborator either resolves to a value (\<open>Inr\<close>) or rejects with an
  exception (\<open>Inl\<close>).
\<close>

datatype exn = Error string

type_synonym 'a promise = "exn + 'a"

text \<open>
  The option values \<open>autoAcceptChanges\<close> and \<open>exitOnceUploaded\<close> are \<open>false\<close>, \<open>true\<close> or a
  branch glob (\<open>trueIfSet\<close> in \<open>getOptions.ts\<close>).
\<close>

datatype branch_option = Off | On | Glob string

record options =
  patchHeadRef :: "string option"
  patchBaseRef :: "string option"
  list :: bool
  only :: "string option"
  preserveMissingSpecs :: bool
  autoAcceptChanges :: branch_option
  exitOnceUploaded :: branch_option

record account =
  exceededThreshold :: bool
  paymentRequired :: bool
  billingUrl :: string

record features =
  uiTests :: bool
  uiReview :: bool

text \<open>
  The fields of the \<open>createBuild\<close> response that the task reads; \<open>account\<close> is
  \<open>build.app.account\<close> and \<open>buildAutoAcceptChanges\<close> is \<open>build.autoAcceptChanges\<close>.
\<close>

record build =
  number :: int
  buildAutoAcceptChanges :: bool
  features :: features
  wasLimited :: bool
  account :: account
  tests :: "string list"

text \<open>
  \<open>git.matchesBranch\<close> is a function stored on the context by an earlier task;
  \<open>commitInfo\<close> stands for the remaining fields of \<open>ctx.git\<close>.
\<close>

record git =
  version :: string
  matchesBranch :: "branch_option \<Rightarrow> bool"
  changedFiles :: "string list option"
  commitInfo :: "(string \<times> string) list"

text \<open>
  A regular expression of \<open>ENVIRONMENT_WHITELIST\<close> is represented by the keys that
  \<open>key.match(regex)\<close> accepts. The whitelist itself is declared outside this file.
\<close>

type_synonym regex = "string \<Rightarrow> bool"

text \<open>
  A plain object with string values, as its own properties in the order in which they
  were added. \<open>onlyStoryFiles\<close> below is an object too, given by its properties in the order
  \<open>Object.keys\<close> lists them.
\<close>

type_synonym obj = "(string \<times> string) list"

record ctx =
  options :: options
  git :: git
  ENVIRONMENT_WHITELIST :: "regex list"
  exitCode :: "int option"
  userError :: bool
  mergeBase :: "string option"
  environment :: "string option"
  onlyStoryFiles :: "(string \<times> string list) list option"
  isolatorUrl :: string
  cachedUrl :: string
  packageVersion :: string
  storybookVersion :: string
  viewLayer :: string
  build :: "build option"
  isPublishOnly :: bool
  isOnboarding :: bool
  skipSnapshots :: bool

text \<open>
  Everything a task does besides mutating the context is an event: a call of a
  collaborator, a log line, a task transition. Assignments to \<open>ctx.exitCode\<close> are
  recorded as events too, so that an assignment that is later overwritten stays
  visible.
\<close>

datatype call =
    IsClean
  | IsUpToDate
  | GetUpdateMessage
  | FindMergeBase "string option" "string option"
  | Checkout "string option"
  | InstallDependencies
  | RunRestoreWorkspace
  | RunQuery

datatype phase =
    LookupMergeBase | CheckoutMergeBase | InstallingDependencies
  | RunOnly | RunOnlyFiles | Success

datatype message =
    WorkspaceNotClean
  | WorkspaceNotUpToDate string
  | MergeBaseNotFound options
  | Thrown exn
  | GotEnvironment string
  | ListingStories "string list"
  | SnapshotQuotaReached account
  | PaymentRequired account
  | BuildLimited account
  | StorybookPublished

datatype level = Debug | Info | Warn | Err

datatype event =
    Called call
  | Transition phase
  | Log level message
  | SetExitCode int

text \<open>
  A run threads the context and the events so far; it ends by returning or by throwing.
\<close>

record ('c, 'e) outcome =
  thrown :: "exn option"
  final :: 'c
  trace :: "'e list"

type_synonym state = "ctx \<times> event list"

definition emit :: "'e \<Rightarrow> 'c \<times> 'e list \<Rightarrow> 'c \<times> 'e list" where
  "emit e s = (fst s, snd s @ [e])"

definition called :: "call \<Rightarrow> state \<Rightarrow> state" where
  "called c = emit (Called c)"

definition transitionTo :: "phase \<Rightarrow> state \<Rightarrow> state" where
  "transitionTo p = emit (Transition p)"

definition log :: "level \<Rightarrow> message \<Rightarrow> state \<Rightarrow> state" where
  "log l m = emit (Log l m)"

definition set_exitCode :: "int \<Rightarrow> state \<Rightarrow> state" where
  "set_exitCode n s = emit (SetExitCode n) ((fst s)\<lparr>exitCode := Some n\<rparr>, snd s)"

definition modify :: "('c \<Rightarrow> 'c) \<Rightarrow> 'c \<times> 'e list \<Rightarrow> 'c \<times> 'e list" where
  "modify f s = (f (fst s), snd s)"

definition throw :: "exn \<Rightarrow> 'c \<times> 'e list \<Rightarrow> ('c, 'e) outcome" where
  "throw e s = \<lparr>thrown = Some e, final = fst s, trace = snd s\<rparr>"

definition return :: "'c \<times> 'e list \<Rightarrow> ('c, 'e) outcome" where
  "return s = \<lparr>thrown = None, final = fst s, trace = snd s\<rparr>"

text \<open>JavaScript truthiness of an optional string: \<open>undefined\<close> and \<open>''\<close> are falsy.\<close>

definition truthy :: "string option \<Rightarrow> bool" where
  "truthy v = (case v of None \<Rightarrow> False | Some s \<Rightarrow> s \<noteq> [])"

section \<open>bin/tasks/prepareWorkspace.js\<close>

text \<open>
  The git helpers of \<open>../git/git\<close>, \<open>installDependencies\<close> and \<open>runRestoreWorkspace\<close> are
  imported, not defined here: each is a field of \<open>workspace\<close> holding what the awaited
  call settles to.
\<close>

record workspace =
  isClean :: "bool promise"
  isUpToDate :: "bool promise"
  getUpdateMessage :: "string promise"
  findMergeBase :: "string option \<Rightarrow> string option \<Rightarrow> string option promise"
  checkout :: "string option \<Rightarrow> unit promise"
  installDependencies :: "unit promise"
  runRestoreWorkspace :: "unit promise"

text \<open>The \<open>try\<close> block around the installation, with its \<open>catch\<close>.\<close>

definition install_or_restore :: "workspace \<Rightarrow> state \<Rightarrow> (ctx, event) outcome" where
  "install_or_restore w s =
     (let s1 = called InstallDependencies (transitionTo InstallingDependencies s) in
      case installDependencies w of
        Inr _ \<Rightarrow> return s1
      | Inl err \<Rightarrow>
          (let s2 = called RunRestoreWorkspace (log Err (Thrown err) (set_exitCode 104 s1)) in
           case runRestoreWorkspace w of
             Inl err' \<Rightarrow> throw err' s2
           | Inr _ \<Rightarrow> throw (Error ''Failed to install dependencies'') s2))"

definition prepareWorkspace :: "workspace \<Rightarrow> ctx \<Rightarrow> (ctx, event) outcome" where
  "prepareWorkspace w ctx =
     (let head = patchHeadRef (options ctx); base = patchBaseRef (options ctx);
          s0 = called IsClean (ctx, [])
      in
      case isClean w of
        Inl err \<Rightarrow> throw err s0
      | Inr clean \<Rightarrow>
         (if \<not> clean then
            throw (Error ''Working directory is not clean'')
              (log Err WorkspaceNotClean
                (modify (\<lambda>c. c\<lparr>userError := True\<rparr>) (set_exitCode 101 s0)))
          else
           (let s1 = called IsUpToDate s0 in
            case isUpToDate w of
              Inl err \<Rightarrow> throw err s1
            | Inr current \<Rightarrow>
               (if \<not> current then
                  (let s2 = called GetUpdateMessage
                              (modify (\<lambda>c. c\<lparr>userError := True\<rparr>) (set_exitCode 102 s1)) in
                   case getUpdateMessage w of
                     Inl err \<Rightarrow> throw err s2
                   | Inr msg \<Rightarrow>
                       throw (Error ''Workspace not up-to-date with remote'')
                         (log Err (WorkspaceNotUpToDate msg) s2))
                else
                 (let s3 = called (FindMergeBase head base) (transitionTo LookupMergeBase s1) in
                  case findMergeBase w head base of
                    Inl err \<Rightarrow> throw err s3
                  | Inr mb \<Rightarrow>
                     (let s4 = modify (\<lambda>c. c\<lparr>mergeBase := mb\<rparr>) s3 in
                      if \<not> truthy mb then
                        throw (Error ''Could not find a merge base'')
                          (log Err (MergeBaseNotFound (options ctx))
                            (modify (\<lambda>c. c\<lparr>userError := True\<rparr>) (set_exitCode 103 s4)))
                      else
                       (let s5 = called (Checkout mb) (transitionTo CheckoutMergeBase s4) in
                        case checkout w mb of
                          Inl err \<Rightarrow> throw err s5
                        | Inr _ \<Rightarrow> install_or_restore w s5)))))))"

section \<open>bin/tasks/verify.js\<close>

subsection \<open>setEnvironment\<close>

text \<open>
  \<open>acc[key] = value\<close> on a plain object with a string value: a new key is added last, an
  existing key keeps its place. The key \<open>__proto__\<close> is the accessor inherited from
  \<open>Object.prototype\<close>, whose setter ignores a string, so that assignment stores nothing.
\<close>

fun setProperty :: "obj \<Rightarrow> string \<Rightarrow> string \<Rightarrow> obj" where
  "setProperty [] key val = [(key, val)]"
| "setProperty ((k, v) # acc) key val =
     (if k = key then (key, val) # acc else (k, v) # setProperty acc key val)"

definition assign :: "obj \<Rightarrow> string \<Rightarrow> string \<Rightarrow> obj" where
  "assign acc key val = (if key = ''__proto__'' then acc else setProperty acc key val)"

text \<open>\<open>ENVIRONMENT_WHITELIST.find((regex) => key.match(regex))\<close>, read as a condition.\<close>

definition whitelisted :: "regex list \<Rightarrow> string \<Rightarrow> bool" where
  "whitelisted wl key = (find (\<lambda>regex. regex key) wl \<noteq> None)"

text \<open>
  The \<open>reduce\<close> over \<open>Object.entries(process.env)\<close>, starting from the empty object.
\<close>

definition collect :: "regex list \<Rightarrow> obj \<Rightarrow> obj" where
  "collect wl entries =
     foldl (\<lambda>acc (key, val). if whitelisted wl key then assign acc key val else acc) [] entries"

text \<open>
  \<open>JSON.stringify\<close> belongs to the runtime; it is the parameter \<open>stringify\<close>, a function
  of the object it is given. \<open>env\<close> is \<open>Object.entries(process.env)\<close> in enumeration order.
\<close>

definition setEnvironment :: "(obj \<Rightarrow> string) \<Rightarrow> obj \<Rightarrow> ctx \<Rightarrow> (ctx, event) outcome" where
  "setEnvironment stringify env ctx =
     (let json = stringify (collect (ENVIRONMENT_WHITELIST ctx) env) in
      return (log Debug (GotEnvironment json) (ctx\<lparr>environment := Some json\<rparr>, [])))"

subsection \<open>createBuild\<close>

text \<open>The \<open>input\<close> variable of the mutation.\<close>

record build_input =
  inCommitInfo :: "(string \<times> string) list"
  inOnly :: "string option"
  inOnlyStoryFiles :: "string list option"
  inAutoAcceptChanges :: bool
  inCachedUrl :: string
  inEnvironment :: "string option"
  inPatchBaseRef :: "string option"
  inPatchHeadRef :: "string option"
  inPreserveMissingSpecs :: bool
  inPackageVersion :: string
  inStorybookVersion :: string
  inViewLayer :: string

text \<open>\<open>client.runQuery\<close> with the mutation: from \<open>input\<close> and \<open>isolatorUrl\<close> to the build.\<close>

type_synonym client = "build_input \<Rightarrow> string \<Rightarrow> build promise"

definition createBuildInput :: "ctx \<Rightarrow> build_input" where
  "createBuildInput ctx =
     \<lparr>inCommitInfo = commitInfo (git ctx),
      inOnly = (if truthy (only (options ctx)) then only (options ctx) else None),
      inOnlyStoryFiles = map_option (map fst) (onlyStoryFiles ctx),
      inAutoAcceptChanges = matchesBranch (git ctx) (autoAcceptChanges (options ctx)),
      inCachedUrl = cachedUrl ctx,
      inEnvironment = environment ctx,
      inPatchBaseRef = patchBaseRef (options ctx),
      inPatchHeadRef = patchHeadRef (options ctx),
      inPreserveMissingSpecs = preserveMissingSpecs (options ctx),
      inPackageVersion = packageVersion ctx,
      inStorybookVersion = storybookVersion ctx,
      inViewLayer = viewLayer ctx\<rparr>"

text \<open>The \<open>if (build.wasLimited)\<close> block.\<close>

definition limited :: "build \<Rightarrow> state \<Rightarrow> state" where
  "limited b s =
     (if wasLimited b then
        (if exceededThreshold (account b) then
           set_exitCode 101 (log Warn (SnapshotQuotaReached (account b)) s)
         else if paymentRequired (account b) then
           set_exitCode 102 (log Warn (PaymentRequired (account b)) s)
         else
           set_exitCode 100 (log Warn (BuildLimited (account b)) s))
      else s)"

definition createBuild :: "client \<Rightarrow> ctx \<Rightarrow> (ctx, event) outcome" where
  "createBuild runQuery ctx =
     (let opts = options ctx;
          autoAccept = matchesBranch (git ctx) (autoAcceptChanges opts);
          s0 = (ctx, []);
          s1 = (if truthy (only opts) then transitionTo RunOnly s0 else s0);
          s2 = (if onlyStoryFiles ctx \<noteq> None then transitionTo RunOnlyFiles s1 else s1);
          s3 = called RunQuery s2
      in
      case runQuery (createBuildInput ctx) (isolatorUrl ctx) of
        Inl err \<Rightarrow> throw err s3
      | Inr b \<Rightarrow>
         (let publishOnly = (\<not> uiReview (features b) \<and> \<not> uiTests (features b));
              s4 = modify (\<lambda>c. c\<lparr>build := Some b,
                                  isPublishOnly := publishOnly,
                                  isOnboarding :=
                                    (number b = 1
                                     \<or> (buildAutoAcceptChanges b \<and> \<not> autoAccept))\<rparr>) s3;
              s5 = (if list opts then log Info (ListingStories (tests b)) s4 else s4);
              s6 = limited b s5;
              s7 = transitionTo Success s6
          in
          if list opts \<or> publishOnly \<or> matchesBranch (git ctx) (exitOnceUploaded opts) then
            return (log Info StorybookPublished
                     (modify (\<lambda>c. c\<lparr>skipSnapshots := True\<rparr>) (set_exitCode 0 s7)))
          else return s7))"

text \<open>The assignments to \<open>ctx.exitCode\<close> a run made, in order.\<close>

fun exitCodesSet :: "event list \<Rightarrow> int list" where
  "exitCodesSet [] = []"
| "exitCodesSet (SetExitCode n # es) = n # exitCodesSet es"
| "exitCodesSet (e # es) = exitCodesSet es"

text \<open>The collaborator calls a run made, in order.\<close>

fun callsMade :: "event list \<Rightarrow> call list" where
  "callsMade [] = []"
| "callsMade (Called c # es) = c # callsMade es"
| "callsMade (e # es) = callsMade es"

section \<open>node-src/tasks/upload.ts, from the specification\<close>

text \<open>
  The steps \<open>validateFiles\<close>, \<open>traceChangedFiles\<close> and \<open>uploadStorybook\<close> are exercised by
  \<open>upload.test.ts\<close>, but the file that defines them is not among the sources. The
  definitions of this section are written from sections 3, 4.3, 4.4, 6 and 7 of the
  specification; the collaborators that the test file replaces by mocks are parameters.
\<close>

subsection \<open>The pipeline context\<close>

text \<open>
  Modelled from the spec: the file manifest of section 3, with the fields the test
  expects in \<open>ctx.fileInfo\<close>.
\<close>

record file_length =
  pathname :: string
  knownAs :: string
  contentLength :: nat

record file_info =
  paths :: "string list"
  lengths :: "file_length list"
  total :: nat

text \<open>
  Modelled from the spec: an entry of \<open>packageManifestChanges\<close>, \<open>{commit, changedFiles}\<close>.
\<close>

record manifest_change =
  commit :: string
  manifestFiles :: "string list"

text \<open>
  Modelled from the spec: the structured cause of a bail, \<open>{changedPackageFiles: [...]}\<close>
  of section 4.3.
\<close>

datatype bail_reason = ChangedPackageFiles "string list"

text \<open>
  Modelled from the spec: the fields of the pipeline context that the three steps read
  and write; \<open>changedFilesInRange\<close> is \<open>git.changedFiles\<close>, \<open>bailReason\<close> is
  \<open>turboSnap.bailReason\<close>, and \<open>affectedStoryFiles\<close> is the field the test reads as
  \<open>ctx.onlyStoryFiles\<close>.
\<close>

record pipeline =
  sourceDir :: string
  buildLogFile :: "string option"
  untraced :: "string list"
  externals :: "string list"
  buildId :: string
  fileInfo :: "file_info option"
  statsPath :: string
  changedFilesInRange :: "string list"
  packageManifestChanges :: "manifest_change list"
  bailReason :: "bail_reason option"
  affectedStoryFiles :: "string list option"
  uploadedBytes :: "nat option"

text \<open>
  Modelled from the spec: what the three steps do to the outside, as events: calls of
  their collaborators and the warning of a retargeted build directory.
\<close>

datatype io =
    ListDir string
  | ReadFile string
  | WarnUnexpectedBuildDir string
  | FindChangedDependencies "string list"
  | FindChangedPackageFiles "manifest_change list"
  | ReadStatsFile string
  | GetDependentStoryFiles "string list"
  | MakeZipFile
  | GetZipUploadUrl string
  | Put string "(string \<times> string) list"
  | WaitForSentinel string

subsection \<open>validateFiles\<close>

text \<open>
  Modelled from the spec: the directory listing of \<open>validateFiles\<close>. A directory is a
  list of named entries, each a file with its byte length or a directory; the listing
  recurses into directories and leaves the directory entries themselves out.
\<close>

datatype node = File nat | Dir "(string \<times> node) list"

definition joinPath :: "string \<Rightarrow> string \<Rightarrow> string" where
  "joinPath dir name = (if dir = [] then name else dir @ ''/'' @ name)"

fun getPathsInDir :: "string \<Rightarrow> (string \<times> node) list \<Rightarrow> (string \<times> nat) list" where
  "getPathsInDir dir [] = []"
| "getPathsInDir dir ((name, File bytes) # rest) =
     (joinPath dir name, bytes) # getPathsInDir dir rest"
| "getPathsInDir dir ((name, Dir entries) # rest) =
     getPathsInDir (joinPath dir name) entries @ getPathsInDir dir rest"

text \<open>
  Modelled from the spec: the file system as \<open>validateFiles\<close> sees it: the entries under
  a root directory, and the content of a text file (\<open>None\<close> when it cannot be read).
\<close>

record disk =
  entriesOf :: "string \<Rightarrow> (string \<times> node) list"
  readFile :: "string \<Rightarrow> string option"

text \<open>
  Modelled from the spec: the file manifest of section 3, built from the listing of
  \<open>dir\<close>; \<open>total\<close> accumulates the content lengths.
\<close>

definition getFileInfo :: "disk \<Rightarrow> string \<Rightarrow> file_info" where
  "getFileInfo d dir =
     (let found = getPathsInDir [] (entriesOf d dir);
          lens = map (\<lambda>(p, bytes). \<lparr>pathname = p, knownAs = p, contentLength = bytes\<rparr>) found
      in \<lparr>paths = map fst found,
          lengths = lens,
          total = foldl (\<lambda>acc l. acc + contentLength l) 0 lens\<rparr>)"

text \<open>
  Modelled from the spec: a manifest is valid when \<open>index.html\<close> and \<open>iframe.html\<close> are
  among its paths, that is at the listed root.
\<close>

definition isValidStorybook :: "file_info \<Rightarrow> bool" where
  "isValidStorybook info =
     (''index.html'' \<in> set (paths info) \<and> ''iframe.html'' \<in> set (paths info))"

text \<open>
  Modelled from the spec: the search for a marker in the build log; \<open>findAfter\<close> gives
  the text that follows the first occurrence of the marker.
\<close>

fun stripPrefix :: "string \<Rightarrow> string \<Rightarrow> string option" where
  "stripPrefix [] s = Some s"
| "stripPrefix (c # cs) [] = None"
| "stripPrefix (c # cs) (d # ds) = (if c = d then stripPrefix cs ds else None)"

fun findAfter :: "string \<Rightarrow> string \<Rightarrow> string option" where
  "findAfter marker [] = stripPrefix marker []"
| "findAfter marker (c # cs) =
     (case stripPrefix marker (c # cs) of
        Some rest \<Rightarrow> Some rest
      | None \<Rightarrow> findAfter marker cs)"

text \<open>
  Modelled from the spec: the build log is scanned for a line matching
  \<open>Output directory: <path>\<close>; the hint is the rest of that line.
\<close>

definition getOutputDir :: "string \<Rightarrow> string option" where
  "getOutputDir buildLog =
     (case findAfter ''Output directory: '' buildLog of
        None \<Rightarrow> None
      | Some rest \<Rightarrow>
          (let dir = takeWhile (\<lambda>c. c \<noteq> CHR 0x0A) rest
           in if dir = [] then None else Some dir))"

text \<open>Modelled from the spec: the error of an invalid build directory.\<close>

definition invalid :: "string \<Rightarrow> exn" where
  "invalid dir = Error (''Invalid Storybook build at '' @ dir)"

text \<open>
  Modelled from the spec: \<open>validateFiles\<close> of section 4.4. The source directory is
  listed and sized; if \<open>index.html\<close> or \<open>iframe.html\<close> is missing and the optional build
  log reports an output directory, \<open>sourceDir\<close> is retargeted to it and the validation
  is done once more; a manifest that is still invalid is the error
  \<open>Invalid Storybook build at <dir>\<close>.
\<close>

definition validateFiles :: "disk \<Rightarrow> pipeline \<Rightarrow> (pipeline, io) outcome" where
  "validateFiles d ctx =
     (let info = getFileInfo d (sourceDir ctx);
          s1 = modify (\<lambda>c. c\<lparr>fileInfo := Some info\<rparr>) (emit (ListDir (sourceDir ctx)) (ctx, []))
      in
      if isValidStorybook info then return s1
      else
       (case buildLogFile ctx of
          None \<Rightarrow> throw (invalid (sourceDir ctx)) s1
        | Some logFile \<Rightarrow>
           (let s2 = emit (ReadFile logFile) s1 in
            case Option.bind (readFile d logFile) getOutputDir of
              None \<Rightarrow> throw (invalid (sourceDir ctx)) s2
            | Some outputDir \<Rightarrow>
               (let info' = getFileInfo d outputDir;
                    s3 = modify (\<lambda>c. c\<lparr>sourceDir := outputDir, fileInfo := Some info'\<rparr>)
                           (emit (ListDir outputDir) (emit (WarnUnexpectedBuildDir outputDir) s2))
                in
                if isValidStorybook info' then return s3 else throw (invalid outputDir) s3))))"

text \<open>
  Modelled from the spec: the output directory that a run of \<open>validateFiles\<close> retargets
  to, if any: the first listing is invalid, a build log is configured and readable, and
  it reports an output directory.
\<close>

definition outputDirHint :: "disk \<Rightarrow> pipeline \<Rightarrow> string option" where
  "outputDirHint d ctx =
     (if isValidStorybook (getFileInfo d (sourceDir ctx)) then None
      else Option.bind (Option.bind (buildLogFile ctx) (readFile d)) getOutputDir)"

text \<open>The directories a run listed, in order.\<close>

fun listings :: "io list \<Rightarrow> string list" where
  "listings [] = []"
| "listings (ListDir dir # es) = dir # listings es"
| "listings (e # es) = listings es"

subsection \<open>traceChangedFiles\<close>

text \<open>
  Modelled from the spec: the dependency graph of section 3, from a module identifier
  to the story files that import it.
\<close>

type_synonym graph = "(string \<times> string list) list"

text \<open>
  Modelled from the spec: the collaborators of \<open>traceChangedFiles\<close>, those the test file
  mocks. \<open>findChangedDependencies\<close> is the exact dependency resolver;
  \<open>findChangedPackageFiles\<close> is the coarse manifest check, which reports the manifest
  files it finds changed among the manifest changes it is given; \<open>readStatsFile\<close> reads
  the stats artifact; \<open>getDependentStoryFiles\<close> projects changed files onto the graph;
  \<open>matchesFile\<close> matches a path against an exclusion glob. The resolver, the coarse
  check and the projection are awaited and may reject.
\<close>

record tracer =
  findChangedDependencies :: "string list \<Rightarrow> string list promise"
  findChangedPackageFiles :: "manifest_change list \<Rightarrow> string list promise"
  readStatsFile :: "string \<Rightarrow> graph"
  getDependentStoryFiles :: "graph \<Rightarrow> string list \<Rightarrow> (string \<times> string list) list promise"
  matchesFile :: "string \<Rightarrow> string \<Rightarrow> bool"

text \<open>Modelled from the spec: a path matches an exclusion list when it matches one glob.\<close>

definition matchesAny :: "tracer \<Rightarrow> string list \<Rightarrow> string \<Rightarrow> bool" where
  "matchesAny t globs file = list_ex (\<lambda>glob. matchesFile t glob file) globs"

text \<open>
  Modelled from the spec: manifest paths matching the untraced exclusion list are
  filtered out before the coarse check; a commit left with no path is dropped (the test
  expects the check to be called with the empty list then).
\<close>

definition tracedManifestChanges :: "tracer \<Rightarrow> pipeline \<Rightarrow> manifest_change list" where
  "tracedManifestChanges t ctx =
     filter (\<lambda>c. manifestFiles c \<noteq> [])
       (map (\<lambda>c. c\<lparr>manifestFiles :=
                     filter (\<lambda>file. \<not> matchesAny t (untraced ctx) file) (manifestFiles c)\<rparr>)
            (packageManifestChanges ctx))"

text \<open>
  Modelled from the spec: paths matching an untraced or externals exclusion are removed
  from the changed files before projection.
\<close>

definition tracedFiles :: "tracer \<Rightarrow> pipeline \<Rightarrow> string list" where
  "tracedFiles t ctx =
     filter (\<lambda>file. \<not> matchesAny t (untraced ctx) file \<and> \<not> matchesAny t (externals ctx) file)
       (changedFilesInRange ctx)"

text \<open>
  Modelled from the spec: steps 5 and 6 of section 4.3. The graph is read from the
  stats artifact, the remaining changed files are projected onto it, and the story
  files found become \<open>affectedStoryFiles\<close>. A projection that fails is not swallowed
  (section 7): its error leaves the step.
\<close>

definition projectChangedFiles ::
  "tracer \<Rightarrow> pipeline \<times> io list \<Rightarrow> (pipeline, io) outcome" where
  "projectChangedFiles t s =
     (let ctx = fst s;
          s1 = emit (ReadStatsFile (statsPath ctx)) s;
          stats = readStatsFile t (statsPath ctx);
          changed = tracedFiles t ctx;
          s2 = emit (GetDependentStoryFiles changed) s1
      in
      case getDependentStoryFiles t stats changed of
        Inl err \<Rightarrow> throw err s2
      | Inr deps \<Rightarrow> return (modify (\<lambda>c. c\<lparr>affectedStoryFiles := Some (map fst deps)\<rparr>) s2))"

text \<open>
  Modelled from the spec: \<open>traceChangedFiles\<close>, steps 1 to 4 of section 4.3. The resolver
  is called on the manifest paths of the range, deduplicated. When it succeeds and
  reports no changed dependency, the manifest files are ignored. When it fails or
  reports changes, the coarse check runs on the untraced-filtered manifest changes;
  if it reports any file, the run bails with these files and stops. The failure of the
  resolver is the one failure that is swallowed (section 7); a failure of the coarse
  check leaves the step.
\<close>

definition traceChangedFiles :: "tracer \<Rightarrow> pipeline \<Rightarrow> (pipeline, io) outcome" where
  "traceChangedFiles t ctx =
     (let manifests = remdups (concat (map manifestFiles (packageManifestChanges ctx)));
          s1 = emit (FindChangedDependencies manifests) (ctx, []);
          noDependencyChanges =
            (case findChangedDependencies t manifests of
               Inl err \<Rightarrow> False
             | Inr names \<Rightarrow> names = [])
      in
      if noDependencyChanges then projectChangedFiles t s1
      else
       (let traced = tracedManifestChanges t ctx;
            s2 = emit (FindChangedPackageFiles traced) s1
        in
        case findChangedPackageFiles t traced of
          Inl err \<Rightarrow> throw err s2
        | Inr changedPackageFiles \<Rightarrow>
           (if changedPackageFiles \<noteq> [] then
              return (modify (\<lambda>c. c\<lparr>bailReason := Some (ChangedPackageFiles changedPackageFiles)\<rparr>)
                        s2)
            else projectChangedFiles t s2)))"

text \<open>Whether a run consulted the dependency graph.\<close>

fun consultsGraph :: "io list \<Rightarrow> bool" where
  "consultsGraph [] = False"
| "consultsGraph (GetDependentStoryFiles changed # es) = True"
| "consultsGraph (ReadStatsFile path # es) = True"
| "consultsGraph (e # es) = consultsGraph es"

subsection \<open>uploadStorybook, archive mode\<close>

text \<open>
  Modelled from the spec: the archive with its own size, and the upload target of the
  archive mode, \<open>{domain, url, sentinelUrl}\<close>.
\<close>

record archive =
  archivePath :: string
  archiveSize :: nat

record zip_target =
  domain :: string
  url :: string
  sentinelUrl :: string

text \<open>
  Modelled from the spec: the collaborators of the archive mode. \<open>makeZipFile\<close>
  compresses the manifest of the context into one archive; \<open>getZipUploadUrl\<close> asks the
  service for the signed URL and the sentinel URL of a build; \<open>putOk url k\<close> tells
  whether the \<open>k\<close>-th PUT to \<open>url\<close> is answered with an ok status; \<open>waitForSentinel\<close>
  confirms completion; \<open>retries\<close> is the configured retry budget.
\<close>

record uploader =
  makeZipFile :: "pipeline \<Rightarrow> archive promise"
  getZipUploadUrl :: "string \<Rightarrow> zip_target promise"
  putOk :: "string \<Rightarrow> nat \<Rightarrow> bool"
  waitForSentinel :: "string \<Rightarrow> unit promise"
  retries :: nat

text \<open>
  Modelled from the spec: a byte count as the text of a \<open>content-length\<close> header (the
  test expects \<open>'80'\<close>).
\<close>

fun decimal :: "nat \<Rightarrow> string" where
  "decimal n =
     (if n < 10 then [char_of (48 + n)]
      else decimal (n div 10) @ [char_of (48 + n mod 10)])"

declare decimal.simps [simp del]

text \<open>
  Modelled from the spec: one transfer with its retry budget. The PUT is repeated until
  it is answered ok or the budget is used up; every attempt is an event.
\<close>

definition transfer ::
  "uploader \<Rightarrow> string \<Rightarrow> (string \<times> string) list \<Rightarrow> pipeline \<times> io list
     \<Rightarrow> bool \<times> (pipeline \<times> io list)" where
  "transfer u target headers s =
     (case find (putOk u target) [0 ..< Suc (retries u)] of
        Some k \<Rightarrow> (True, (fst s, snd s @ replicate (Suc k) (Put target headers)))
      | None \<Rightarrow> (False, (fst s, snd s @ replicate (Suc (retries u)) (Put target headers))))"

text \<open>
  Modelled from the spec: the archive mode of \<open>uploadStorybook\<close> (section 4.4). The
  manifest is compressed into one archive, one signed URL and a sentinel URL are
  requested, the archive is PUT with \<open>content-type: application/zip\<close> and its own byte
  length, completion is confirmed through the sentinel URL, and \<open>uploadedBytes\<close> is the
  size of the archive.
\<close>

definition uploadStorybook :: "uploader \<Rightarrow> pipeline \<Rightarrow> (pipeline, io) outcome" where
  "uploadStorybook u ctx =
     (let s1 = emit MakeZipFile (ctx, []) in
      case makeZipFile u ctx of
        Inl err \<Rightarrow> throw err s1
      | Inr zipped \<Rightarrow>
         (let s2 = emit (GetZipUploadUrl (buildId ctx)) s1 in
          case getZipUploadUrl u (buildId ctx) of
            Inl err \<Rightarrow> throw err s2
          | Inr target \<Rightarrow>
             (let headers = [(''content-type'', ''application/zip''),
                             (''content-length'', decimal (archiveSize zipped))];
                  sent = transfer u (url target) headers s2
              in
              if \<not> fst sent then throw (Error ''Failed to upload the archive'') (snd sent)
              else
               (let s4 = emit (WaitForSentinel (sentinelUrl target)) (snd sent) in
                case waitForSentinel u (sentinelUrl target) of
                  Inl err \<Rightarrow> throw err s4
                | Inr _ \<Rightarrow>
                    return (modify (\<lambda>c. c\<lparr>uploadedBytes := Some (archiveSize zipped)\<rparr>) s4)))))"

text \<open>The PUT requests a run issued, in order.\<close>

fun puts :: "io list \<Rightarrow> (string \<times> (string \<times> string) list) list" where
  "puts [] = []"
| "puts (Put target headers # es) = (target, headers) # puts es"
| "puts (e # es) = puts es"

section \<open>Concrete runs\<close>

text \<open>Inputs on which the theorems below are exercised.\<close>

definition options0 :: options where
  "options0 = \<lparr>patchHeadRef = Some ''feature'', patchBaseRef = Some ''main'', list = False,
               only = None, preserveMissingSpecs = False, autoAcceptChanges = Off,
               exitOnceUploaded = Off\<rparr>"

definition git0 :: git where
  "git0 = \<lparr>version = ''2.30.0'', matchesBranch = (\<lambda>g. g = On),
           changedFiles = None, commitInfo = [(''commit'', ''abcdef'')]\<rparr>"

definition ctx0 :: ctx where
  "ctx0 = \<lparr>options = options0, git = git0,
           ENVIRONMENT_WHITELIST =
             [\<lambda>key. take 6 key = ''GERRIT'', \<lambda>key. take 6 key = ''TRAVIS''],
           exitCode = None, userError = False, mergeBase = None, environment = None,
           onlyStoryFiles = None, isolatorUrl = ''https://example.chromatic.com/iframe.html'',
           cachedUrl = ''https://example.chromatic.com/iframe.html'',
           packageVersion = ''4.0.0'', storybookVersion = ''6.1.0'', viewLayer = ''react'',
           build = None, isPublishOnly = False, isOnboarding = False, skipSnapshots = False\<rparr>"

definition ws_ok :: workspace where
  "ws_ok = \<lparr>isClean = Inr True, isUpToDate = Inr True, getUpdateMessage = Inr ''git pull'',
            findMergeBase = (\<lambda>h b. Inr (Some ''abc123'')), checkout = (\<lambda>commit. Inr ()),
            installDependencies = Inr (), runRestoreWorkspace = Inr ()\<rparr>"

definition ws_install_fails :: workspace where
  "ws_install_fails = ws_ok\<lparr>installDependencies := Inl (Error ''npm ERR! code ENOTFOUND'')\<rparr>"

definition ws_restore_fails :: workspace where
  "ws_restore_fails =
     ws_install_fails\<lparr>runRestoreWorkspace := Inl (Error ''git checkout failed'')\<rparr>"

definition build0 :: build where
  "build0 = \<lparr>number = 7, buildAutoAcceptChanges = False,
             features = \<lparr>uiTests = True, uiReview = True\<rparr>, wasLimited = False,
             account = \<lparr>exceededThreshold = False, paymentRequired = False,
                        billingUrl = ''https://www.chromatic.com/billing''\<rparr>,
             tests = []\<rparr>"

definition limited_build :: "bool \<Rightarrow> bool \<Rightarrow> build" where
  "limited_build exceeded payment =
     build0\<lparr>wasLimited := True,
            account := \<lparr>exceededThreshold = exceeded, paymentRequired = payment,
                        billingUrl = ''https://www.chromatic.com/billing''\<rparr>\<rparr>"

text \<open>A serializer for the concrete runs of \<open>setEnvironment\<close>.\<close>

definition show_obj :: "obj \<Rightarrow> string" where
  "show_obj kvs = concat (map (\<lambda>(k, v). k @ ''='' @ v @ '';'') kvs)"

text \<open>The runs of \<open>upload.test.ts\<close>.\<close>

definition pipeline0 :: pipeline where
  "pipeline0 = \<lparr>sourceDir = ''/static/'', buildLogFile = None, untraced = [], externals = [],
                buildId = ''1'', fileInfo = None, statsPath = ''/static/preview-stats.json'',
                changedFilesInRange = [''./example.js'', ''./package.json''],
                packageManifestChanges = [\<lparr>commit = ''abcdef'', manifestFiles = [''./package.json'']\<rparr>],
                bailReason = None, affectedStoryFiles = None, uploadedBytes = None\<rparr>"

definition tracer0 :: tracer where
  "tracer0 = \<lparr>findChangedDependencies = (\<lambda>manifests. Inl (Error ''no lockfile'')),
              findChangedPackageFiles = (\<lambda>changes. Inr []),
              readStatsFile = (\<lambda>path. []),
              getDependentStoryFiles =
                (\<lambda>stats changed. Inr [(''123'', [''./example.stories.js''])]),
              matchesFile = (\<lambda>glob file. file = glob \<or> file = ''./'' @ glob)\<rparr>"

text \<open>
  A range with two changed manifests, one of them excluded by \<open>untraced\<close>, and a coarse
  check that reports every manifest file it is given.
\<close>

definition pipeline_docs :: pipeline where
  "pipeline_docs =
     pipeline0\<lparr>untraced := [''package.json''],
               changedFilesInRange :=
                 [''./example.js'', ''./package.json'', ''./docs/package.json''],
               packageManifestChanges :=
                 [\<lparr>commit = ''abcdef'',
                   manifestFiles = [''./package.json'', ''./docs/package.json'']\<rparr>]\<rparr>"

definition tracer_all :: tracer where
  "tracer_all =
     tracer0\<lparr>findChangedPackageFiles := \<lambda>changes. Inr (concat (map manifestFiles changes))\<rparr>"

text \<open>Two environments with the same whitelisted variables, listed in different orders.\<close>

definition envA :: obj where
  "envA = [(''TRAVIS_BRANCH'', ''main''), (''HOME'', ''/root''), (''GERRIT_PROJECT'', ''ui'')]"

definition envB :: obj where
  "envB = [(''GERRIT_PROJECT'', ''ui''), (''TRAVIS_BRANCH'', ''main''), (''PATH'', ''/usr/bin'')]"

definition disk0 :: disk where
  "disk0 = \<lparr>entriesOf = (\<lambda>dir. if dir = ''/static/'' then [(''iframe.html'', File 42), (''index.html'', File 42)] else []),
            readFile = (\<lambda>path. None)\<rparr>"

definition disk_moved :: disk where
  "disk_moved = \<lparr>entriesOf = (\<lambda>dir. if dir = ''/var/storybook-static''
                                     then [(''iframe.html'', File 42), (''index.html'', File 42),
                                           (''static'', Dir [(''main.js'', File 7)])] else []),
            readFile = (\<lambda>path. if path = ''build-storybook.log''
                                then Some ''info => Output directory: /var/storybook-static'' else None)\<rparr>"

definition uploader0 :: uploader where
  "uploader0 = \<lparr>makeZipFile = (\<lambda>ctx. Inr \<lparr>archivePath = ''storybook.zip'', archiveSize = 80\<rparr>),
                getZipUploadUrl = (\<lambda>build. Inr \<lparr>domain = ''https://asdqwe.chromatic.com'',
                                                 url = ''https://asdqwe.chromatic.com/storybook.zip'',
                                                 sentinelUrl = ''https://asdqwe.chromatic.com/upload.txt''\<rparr>),
                putOk = (\<lambda>target k. True),
                waitForSentinel = (\<lambda>target. Inr ()),
                retries = 2\<rparr>"

definition manifest0 :: file_info where
  "manifest0 = \<lparr>paths = [''iframe.html'', ''index.html''],
                lengths = [\<lparr>pathname = ''iframe.html'', knownAs = ''iframe.html'', contentLength = 42\<rparr>,
                           \<lparr>pathname = ''index.html'', knownAs = ''index.html'', contentLength = 42\<rparr>],
                total = 84\<rparr>"

section \<open>Theorems: prepareWorkspace\<close>

lemmas step_defs = emit_def called_def transitionTo_def log_def set_exitCode_def modify_def
  throw_def return_def

lemmas concrete_defs = options0_def git0_def ctx0_def ws_ok_def ws_install_fails_def
  ws_restore_fails_def build0_def limited_build_def

lemma install_or_restore_failed:
  assumes "installDependencies w = Inl err"
  shows "exitCode (final (install_or_restore w s)) = Some 104"
    and "trace (install_or_restore w s) =
           snd s @ [Transition InstallingDependencies, Called InstallDependencies,
                    SetExitCode 104, Log Err (Thrown err), Called RunRestoreWorkspace]"
    and "thrown (install_or_restore w s) =
           Some (case runRestoreWorkspace w of
                   Inl err' \<Rightarrow> err'
                 | Inr u \<Rightarrow> Error ''Failed to install dependencies'')"
  using assms by (simp_all add: install_or_restore_def step_defs Let_def split: sum.splits)

lemma prepareWorkspace_reaches_install:
  assumes "isClean w = Inr True" and "isUpToDate w = Inr True"
    and "findMergeBase w (patchHeadRef (options ctx)) (patchBaseRef (options ctx)) = Inr (Some m)"
    and "m \<noteq> []" and "checkout w (Some m) = Inr ()"
  shows "prepareWorkspace w ctx =
           install_or_restore w
             (ctx\<lparr>mergeBase := Some m\<rparr>,
              [Called IsClean, Called IsUpToDate, Transition LookupMergeBase,
               Called (FindMergeBase (patchHeadRef (options ctx)) (patchBaseRef (options ctx))),
               Transition CheckoutMergeBase, Called (Checkout (Some m))])"
  using assms by (simp add: prepareWorkspace_def step_defs truthy_def Let_def)

text \<open>
  Claim C3. The gates are checked in order; each failing gate sets its own exit code,
  marks the failure as a user error and throws. A dirty tree gives 101, and the only
  collaborator called is \<open>isClean\<close>, so no merge base is looked up. A clean tree that is
  not up to date gives 102. A clean, up-to-date tree whose merge-base lookup returns
  nothing (or the empty string) gives 103.
\<close>

theorem prepareWorkspace_gates:
  "(isClean w = Inr False \<longrightarrow>
      exitCode (final (prepareWorkspace w ctx)) = Some 101
    \<and> userError (final (prepareWorkspace w ctx))
    \<and> thrown (prepareWorkspace w ctx) = Some (Error ''Working directory is not clean'')
    \<and> callsMade (trace (prepareWorkspace w ctx)) = [IsClean])
 \<and> (isClean w = Inr True \<and> isUpToDate w = Inr False \<longrightarrow>
      exitCode (final (prepareWorkspace w ctx)) = Some 102
    \<and> userError (final (prepareWorkspace w ctx))
    \<and> thrown (prepareWorkspace w ctx) =
         Some (case getUpdateMessage w of
                 Inl err \<Rightarrow> err
               | Inr msg \<Rightarrow> Error ''Workspace not up-to-date with remote'')
    \<and> callsMade (trace (prepareWorkspace w ctx)) = [IsClean, IsUpToDate, GetUpdateMessage])
 \<and> (isClean w = Inr True \<and> isUpToDate w = Inr True
      \<and> findMergeBase w (patchHeadRef (options ctx)) (patchBaseRef (options ctx)) = Inr mb
      \<and> \<not> truthy mb \<longrightarrow>
      exitCode (final (prepareWorkspace w ctx)) = Some 103
    \<and> userError (final (prepareWorkspace w ctx))
    \<and> thrown (prepareWorkspace w ctx) = Some (Error ''Could not find a merge base'')
    \<and> callsMade (trace (prepareWorkspace w ctx)) =
         [IsClean, IsUpToDate,
          FindMergeBase (patchHeadRef (options ctx)) (patchBaseRef (options ctx))])"
  by (auto simp: prepareWorkspace_def step_defs Let_def split: sum.splits)

theorem prepareWorkspace_gates_witness:
  "exitCode (final (prepareWorkspace (ws_ok\<lparr>isClean := Inr False\<rparr>) ctx0)) = Some 101
 \<and> userError (final (prepareWorkspace (ws_ok\<lparr>isClean := Inr False\<rparr>) ctx0))
 \<and> callsMade (trace (prepareWorkspace (ws_ok\<lparr>isClean := Inr False\<rparr>) ctx0)) = [IsClean]
 \<and> exitCode (final (prepareWorkspace (ws_ok\<lparr>isUpToDate := Inr False\<rparr>) ctx0)) = Some 102
 \<and> userError (final (prepareWorkspace (ws_ok\<lparr>isUpToDate := Inr False\<rparr>) ctx0))
 \<and> thrown (prepareWorkspace (ws_ok\<lparr>isUpToDate := Inr False\<rparr>) ctx0)
     = Some (Error ''Workspace not up-to-date with remote'')
 \<and> exitCode (final (prepareWorkspace (ws_ok\<lparr>findMergeBase := \<lambda>h b. Inr None\<rparr>) ctx0)) = Some 103
 \<and> userError (final (prepareWorkspace (ws_ok\<lparr>findMergeBase := \<lambda>h b. Inr None\<rparr>) ctx0))
 \<and> thrown (prepareWorkspace (ws_ok\<lparr>findMergeBase := \<lambda>h b. Inr None\<rparr>) ctx0)
     = Some (Error ''Could not find a merge base'')"
  using prepareWorkspace_gates [of "ws_ok\<lparr>isClean := Inr False\<rparr>" ctx0]
        prepareWorkspace_gates [of "ws_ok\<lparr>isUpToDate := Inr False\<rparr>" ctx0]
        prepareWorkspace_gates [of "ws_ok\<lparr>findMergeBase := \<lambda>h b. Inr None\<rparr>" ctx0 None]
  by (simp add: concrete_defs truthy_def)

text \<open>
  Claim C4, as the code has it. When the installation fails after the merge base was
  checked out, the task sets exit code 104, logs the installation error, calls
  \<open>runRestoreWorkspace\<close> exactly once, and throws. What it throws is the fresh error
  \<open>Failed to install dependencies\<close> when the restoration call returns; when the
  restoration call itself fails, its error leaves the \<open>catch\<close> block instead, since no
  handler surrounds that call.
\<close>

theorem prepareWorkspace_install_failure:
  assumes "isClean w = Inr True" and "isUpToDate w = Inr True"
    and "findMergeBase w (patchHeadRef (options ctx)) (patchBaseRef (options ctx)) = Inr (Some m)"
    and "m \<noteq> []" and "checkout w (Some m) = Inr ()"
    and "installDependencies w = Inl err"
  shows "exitCode (final (prepareWorkspace w ctx)) = Some 104
       \<and> filter (\<lambda>c. c = RunRestoreWorkspace) (callsMade (trace (prepareWorkspace w ctx)))
           = [RunRestoreWorkspace]
       \<and> Log Err (Thrown err) \<in> set (trace (prepareWorkspace w ctx))
       \<and> thrown (prepareWorkspace w ctx) =
           Some (case runRestoreWorkspace w of
                   Inl err' \<Rightarrow> err'
                 | Inr u \<Rightarrow> Error ''Failed to install dependencies'')"
  unfolding prepareWorkspace_reaches_install [OF assms(1-5)]
  by (simp add: install_or_restore_failed [OF assms(6)])

theorem prepareWorkspace_install_failure_witness:
  "exitCode (final (prepareWorkspace ws_install_fails ctx0)) = Some 104
 \<and> filter (\<lambda>c. c = RunRestoreWorkspace) (callsMade (trace (prepareWorkspace ws_install_fails ctx0)))
     = [RunRestoreWorkspace]
 \<and> Log Err (Thrown (Error ''npm ERR! code ENOTFOUND''))
     \<in> set (trace (prepareWorkspace ws_install_fails ctx0))
 \<and> thrown (prepareWorkspace ws_install_fails ctx0)
     = Some (Error ''Failed to install dependencies'')"
  using prepareWorkspace_install_failure
    [of ws_install_fails ctx0 "''abc123''" "Error ''npm ERR! code ENOTFOUND''"]
  by (simp add: concrete_defs)

text \<open>
  The claim as stated fails: with the installation failing on \<open>npm ERR! code ENOTFOUND\<close>
  and the restoration failing on \<open>git checkout failed\<close>, the task throws the
  restoration's error, which is neither the installation's error nor the error the
  task raises for a failed installation.
\<close>

theorem prepareWorkspace_restore_failure_masks:
  "installDependencies ws_restore_fails = Inl (Error ''npm ERR! code ENOTFOUND'')
 \<and> runRestoreWorkspace ws_restore_fails = Inl (Error ''git checkout failed'')
 \<and> thrown (prepareWorkspace ws_restore_fails ctx0) = Some (Error ''git checkout failed'')
 \<and> thrown (prepareWorkspace ws_restore_fails ctx0) \<noteq> Some (Error ''npm ERR! code ENOTFOUND'')
 \<and> thrown (prepareWorkspace ws_restore_fails ctx0)
     \<noteq> Some (Error ''Failed to install dependencies'')"
  by (simp add: concrete_defs prepareWorkspace_def install_or_restore_def step_defs
        truthy_def Let_def)

section \<open>Theorems: createBuild\<close>

text \<open>
  Claim C8. When the mutation resolves to a build, the assignments \<open>createBuild\<close> makes
  to \<open>ctx.exitCode\<close> are, in order: for a limited build exactly one of 101 (threshold
  exceeded), else 102 (payment required), else 100; for a build that was not limited
  none of these; and then 0 when the run exits once uploaded (claim C9). The limiting
  code is therefore the exit code \<open>createBuild\<close> leaves behind unless that last
  assignment takes place, and an unlimited build leaves the exit code as it was.
\<close>

theorem createBuild_limited_exitCode:
  assumes "runQuery (createBuildInput ctx) (isolatorUrl ctx) = Inr b"
  shows "exitCodesSet (trace (createBuild runQuery ctx)) =
           (if wasLimited b then
              [if exceededThreshold (account b) then 101
               else if paymentRequired (account b) then 102 else 100]
            else [])
           @ (if list (options ctx) \<or> (\<not> uiReview (features b) \<and> \<not> uiTests (features b))
                 \<or> matchesBranch (git ctx) (exitOnceUploaded (options ctx))
              then [0] else [])
       \<and> exitCode (final (createBuild runQuery ctx)) =
           (if list (options ctx) \<or> (\<not> uiReview (features b) \<and> \<not> uiTests (features b))
                 \<or> matchesBranch (git ctx) (exitOnceUploaded (options ctx))
            then Some 0
            else if wasLimited b then
              Some (if exceededThreshold (account b) then 101
                    else if paymentRequired (account b) then 102 else 100)
            else exitCode ctx)"
  using assms by (simp add: createBuild_def limited_def step_defs Let_def)

theorem createBuild_limited_exitCode_witness:
  "exitCodesSet (trace (createBuild (\<lambda>i u. Inr (limited_build True False)) ctx0)) = [101]
 \<and> exitCode (final (createBuild (\<lambda>i u. Inr (limited_build True False)) ctx0)) = Some 101
 \<and> exitCodesSet (trace (createBuild (\<lambda>i u. Inr (limited_build True True)) ctx0)) = [101]
 \<and> exitCodesSet (trace (createBuild (\<lambda>i u. Inr (limited_build False True)) ctx0)) = [102]
 \<and> exitCode (final (createBuild (\<lambda>i u. Inr (limited_build False True)) ctx0)) = Some 102
 \<and> exitCodesSet (trace (createBuild (\<lambda>i u. Inr (limited_build False False)) ctx0)) = [100]
 \<and> exitCode (final (createBuild (\<lambda>i u. Inr (limited_build False False)) ctx0)) = Some 100
 \<and> exitCodesSet (trace (createBuild (\<lambda>i u. Inr build0) ctx0)) = []
 \<and> exitCode (final (createBuild (\<lambda>i u. Inr build0) ctx0)) = None"
  using createBuild_limited_exitCode [of "\<lambda>i u. Inr (limited_build True False)" ctx0]
        createBuild_limited_exitCode [of "\<lambda>i u. Inr (limited_build True True)" ctx0]
        createBuild_limited_exitCode [of "\<lambda>i u. Inr (limited_build False True)" ctx0]
        createBuild_limited_exitCode [of "\<lambda>i u. Inr (limited_build False False)" ctx0]
        createBuild_limited_exitCode [of "\<lambda>i u. Inr build0" ctx0]
  by (simp add: concrete_defs)

text \<open>
  Claim C9. When the mutation resolves to a build and the run is list-only, or the build
  has neither the \<open>uiReview\<close> nor the \<open>uiTests\<close> feature, or the branch matches
  \<open>exitOnceUploaded\<close>, then \<open>createBuild\<close> returns normally with exit code 0 and
  \<open>skipSnapshots\<close> set; the assignment of 0 is the last one made, also after a limiting
  code.
\<close>

theorem createBuild_exit_once_uploaded:
  assumes "runQuery (createBuildInput ctx) (isolatorUrl ctx) = Inr b"
    and "list (options ctx) \<or> (\<not> uiReview (features b) \<and> \<not> uiTests (features b))
         \<or> matchesBranch (git ctx) (exitOnceUploaded (options ctx))"
  shows "exitCode (final (createBuild runQuery ctx)) = Some 0
       \<and> skipSnapshots (final (createBuild runQuery ctx))
       \<and> isPublishOnly (final (createBuild runQuery ctx))
           = (\<not> uiReview (features b) \<and> \<not> uiTests (features b))
       \<and> thrown (createBuild runQuery ctx) = None
       \<and> last (exitCodesSet (trace (createBuild runQuery ctx))) = 0
       \<and> last (trace (createBuild runQuery ctx)) = Log Info StorybookPublished"
  using assms by (auto simp: createBuild_def limited_def step_defs Let_def)

theorem createBuild_exit_once_uploaded_witness:
  "exitCode (final (createBuild (\<lambda>i u. Inr (limited_build True False))
                     (ctx0\<lparr>options := options0\<lparr>list := True\<rparr>\<rparr>))) = Some 0
 \<and> skipSnapshots (final (createBuild (\<lambda>i u. Inr (limited_build True False))
                     (ctx0\<lparr>options := options0\<lparr>list := True\<rparr>\<rparr>)))
 \<and> exitCode (final (createBuild
                     (\<lambda>i u. Inr (build0\<lparr>features := \<lparr>uiTests = False, uiReview = False\<rparr>\<rparr>))
                     ctx0)) = Some 0
 \<and> skipSnapshots (final (createBuild
                     (\<lambda>i u. Inr (build0\<lparr>features := \<lparr>uiTests = False, uiReview = False\<rparr>\<rparr>))
                     ctx0))
 \<and> exitCode (final (createBuild (\<lambda>i u. Inr build0)
                     (ctx0\<lparr>options := options0\<lparr>exitOnceUploaded := On\<rparr>\<rparr>))) = Some 0
 \<and> skipSnapshots (final (createBuild (\<lambda>i u. Inr build0)
                     (ctx0\<lparr>options := options0\<lparr>exitOnceUploaded := On\<rparr>\<rparr>)))"
  using createBuild_exit_once_uploaded
          [of "\<lambda>i u. Inr (limited_build True False)"
              "ctx0\<lparr>options := options0\<lparr>list := True\<rparr>\<rparr>"]
        createBuild_exit_once_uploaded
          [of "\<lambda>i u. Inr (build0\<lparr>features := \<lparr>uiTests = False, uiReview = False\<rparr>\<rparr>)" ctx0]
        createBuild_exit_once_uploaded
          [of "\<lambda>i u. Inr build0" "ctx0\<lparr>options := options0\<lparr>exitOnceUploaded := On\<rparr>\<rparr>"]
  by (simp add: concrete_defs)

section \<open>Theorems: setEnvironment\<close>

lemma whitelisted_iff: "whitelisted wl key \<longleftrightarrow> (\<exists>regex \<in> set wl. regex key)"
  by (auto simp: whitelisted_def find_None_iff)

lemma collect_filter:
  "collect wl entries =
     foldl (\<lambda>acc (key, val). assign acc key val) []
       (filter (\<lambda>(key, val). whitelisted wl key) entries)"
proof -
  have "foldl (\<lambda>acc (key, val). if whitelisted wl key then assign acc key val else acc) a entries =
        foldl (\<lambda>acc (key, val). assign acc key val) a
          (filter (\<lambda>(key, val). whitelisted wl key) entries)" for a
    by (induction entries arbitrary: a) (auto split: prod.splits)
  then show ?thesis by (simp add: collect_def)
qed

lemma setProperty_fresh:
  "key \<notin> fst ` set acc \<Longrightarrow> setProperty acc key val = acc @ [(key, val)]"
  by (induction acc) auto

lemma foldl_assign_distinct:
  "distinct (map fst kvs) \<Longrightarrow> fst ` set acc \<inter> fst ` set kvs = {} \<Longrightarrow>
   foldl (\<lambda>acc (key, val). assign acc key val) acc kvs =
     acc @ filter (\<lambda>(key, val). key \<noteq> ''__proto__'') kvs"
proof (induction kvs arbitrary: acc)
  case Nil
  then show ?case by simp
next
  case (Cons kv kvs)
  obtain k v where kv: "kv = (k, v)" by (cases kv)
  from Cons.prems have fresh: "k \<notin> fst ` set acc" by (auto simp: kv)
  show ?case
  proof (cases "k = ''__proto__''")
    case True
    have "foldl (\<lambda>acc (key, val). assign acc key val) acc kvs =
            acc @ filter (\<lambda>(key, val). key \<noteq> ''__proto__'') kvs"
      using Cons.prems by (intro Cons.IH) (auto simp: kv)
    then show ?thesis by (simp add: kv True assign_def)
  next
    case False
    have "foldl (\<lambda>acc (key, val). assign acc key val) (acc @ [(k, v)]) kvs =
            (acc @ [(k, v)]) @ filter (\<lambda>(key, val). key \<noteq> ''__proto__'') kvs"
      using Cons.prems by (intro Cons.IH) (auto simp: kv)
    then show ?thesis by (simp add: kv False assign_def setProperty_fresh [OF fresh])
  qed
qed

lemma collect_distinct:
  assumes "distinct (map fst entries)"
  shows "collect wl entries =
           filter (\<lambda>(key, val). whitelisted wl key \<and> key \<noteq> ''__proto__'') entries"
proof -
  have "distinct (map fst (filter (\<lambda>(key, val). whitelisted wl key) entries))"
    using assms by (simp add: distinct_map_filter)
  then have "collect wl entries =
               filter (\<lambda>(key, val). key \<noteq> ''__proto__'')
                 (filter (\<lambda>(key, val). whitelisted wl key) entries)"
    by (simp add: collect_filter foldl_assign_distinct)
  also have "\<dots> = filter (\<lambda>(key, val). whitelisted wl key \<and> key \<noteq> ''__proto__'') entries"
    by (simp add: split_def conj_commute)
  finally show ?thesis .
qed

lemma map_of_filter_key:
  "map_of (filter (\<lambda>(key, val). P key) kvs) k = (if P k then map_of kvs k else None)"
  by (induction kvs) auto

text \<open>
  Claim C10, as the code has it. Let \<open>env\<close> be the entries of \<open>process.env\<close> (an object,
  so its keys are distinct). The object \<open>setEnvironment\<close> serializes into
  \<open>ctx.environment\<close> consists of exactly the entries of \<open>env\<close> whose key matches at least
  one regex of the whitelist and is not \<open>__proto__\<close>, in the order of \<open>env\<close>; as a map it
  sends such a key to its value in \<open>env\<close> and has no other key. Two environments whose
  whitelisted entries are the same sequence (the same keys and values, in the same
  order) give the same outcome of \<open>setEnvironment\<close>: the same \<open>ctx.environment\<close>, the same
  log line and the same context otherwise, whatever their other variables are.
\<close>

theorem setEnvironment_whitelist_only:
  "(distinct (map fst env) \<longrightarrow>
      environment (final (setEnvironment stringify env ctx)) =
        Some (stringify
               (filter (\<lambda>(key, val). (\<exists>regex \<in> set (ENVIRONMENT_WHITELIST ctx). regex key)
                                       \<and> key \<noteq> ''__proto__'') env))
    \<and> (\<forall>k. map_of (collect (ENVIRONMENT_WHITELIST ctx) env) k =
            (if (\<exists>regex \<in> set (ENVIRONMENT_WHITELIST ctx). regex k) \<and> k \<noteq> ''__proto__''
             then map_of env k else None)))
 \<and> (filter (\<lambda>(key, val). \<exists>regex \<in> set (ENVIRONMENT_WHITELIST ctx). regex key) env =
    filter (\<lambda>(key, val). \<exists>regex \<in> set (ENVIRONMENT_WHITELIST ctx). regex key) env' \<longrightarrow>
      setEnvironment stringify env ctx = setEnvironment stringify env' ctx)"
proof -
  let ?W = "ENVIRONMENT_WHITELIST ctx"
  let ?kept = "\<lambda>(key, val :: string). (\<exists>regex \<in> set ?W. regex key) \<and> key \<noteq> ''__proto__''"
  have eq: "(\<lambda>(key, val). whitelisted ?W key) =
            (\<lambda>(key, val :: string). \<exists>regex \<in> set ?W. regex key)"
    by (simp add: whitelisted_iff)
  have kept: "collect ?W env = filter ?kept env" if d: "distinct (map fst env)"
    using collect_distinct [OF d, of ?W] by (simp add: whitelisted_iff)
  have a: "environment (final (setEnvironment stringify env ctx)) =
             Some (stringify (filter ?kept env))"
    if "distinct (map fst env)"
    using kept [OF that] by (simp add: setEnvironment_def step_defs Let_def)
  have b: "map_of (collect ?W env) k =
             (if (\<exists>regex \<in> set ?W. regex k) \<and> k \<noteq> ''__proto__'' then map_of env k else None)"
    if "distinct (map fst env)" for k
    using kept [OF that]
      map_of_filter_key [of "\<lambda>k. (\<exists>regex \<in> set ?W. regex k) \<and> k \<noteq> ''__proto__''" env k]
    by simp
  have c: "setEnvironment stringify env ctx = setEnvironment stringify env' ctx"
    if "filter (\<lambda>(key, val). \<exists>regex \<in> set ?W. regex key) env =
        filter (\<lambda>(key, val). \<exists>regex \<in> set ?W. regex key) env'"
    using that by (simp add: setEnvironment_def collect_filter eq)
  from a b c show ?thesis by blast
qed

theorem setEnvironment_whitelist_only_witness:
  "environment (final (setEnvironment show_obj
      [(''HOME'', ''/root''), (''TRAVIS_BRANCH'', ''main''), (''NPM_TOKEN'', ''s3cret''),
       (''GERRIT_PROJECT'', ''ui'')] ctx0))
     = Some ''TRAVIS_BRANCH=main;GERRIT_PROJECT=ui;''
 \<and> setEnvironment show_obj
      [(''HOME'', ''/root''), (''TRAVIS_BRANCH'', ''main''), (''NPM_TOKEN'', ''s3cret''),
       (''GERRIT_PROJECT'', ''ui'')] ctx0
   = setEnvironment show_obj
      [(''TRAVIS_BRANCH'', ''main''), (''NPM_TOKEN'', ''other''), (''GERRIT_PROJECT'', ''ui''),
       (''PATH'', ''/usr/bin'')] ctx0"
proof -
  let ?e1 = "[(''HOME'', ''/root''), (''TRAVIS_BRANCH'', ''main''), (''NPM_TOKEN'', ''s3cret''),
              (''GERRIT_PROJECT'', ''ui'')]"
  let ?e2 = "[(''TRAVIS_BRANCH'', ''main''), (''NPM_TOKEN'', ''other''),
              (''GERRIT_PROJECT'', ''ui''), (''PATH'', ''/usr/bin'')]"
  let ?keep = "\<lambda>(key, val :: string). \<exists>regex \<in> set (ENVIRONMENT_WHITELIST ctx0). regex key"
  let ?kept = "\<lambda>(key, val :: string).
                 (\<exists>regex \<in> set (ENVIRONMENT_WHITELIST ctx0). regex key) \<and> key \<noteq> ''__proto__''"
  have W: "ENVIRONMENT_WHITELIST ctx0 =
             [\<lambda>key. take 6 key = ''GERRIT'', \<lambda>key. take 6 key = ''TRAVIS'']"
    by (simp add: ctx0_def)
  have d: "distinct (map fst ?e1)" by simp
  have k1: "filter ?kept ?e1 = [(''TRAVIS_BRANCH'', ''main''), (''GERRIT_PROJECT'', ''ui'')]"
    by (simp add: W)
  have f1: "filter ?keep ?e1 = [(''TRAVIS_BRANCH'', ''main''), (''GERRIT_PROJECT'', ''ui'')]"
    by (simp add: W)
  have f2: "filter ?keep ?e2 = [(''TRAVIS_BRANCH'', ''main''), (''GERRIT_PROJECT'', ''ui'')]"
    by (simp add: W)
  note inst = setEnvironment_whitelist_only [of ?e1 show_obj ctx0 ?e2]
  from inst d have "environment (final (setEnvironment show_obj ?e1 ctx0)) =
                     Some (show_obj (filter ?kept ?e1))"
    by blast
  then have 1: "environment (final (setEnvironment show_obj ?e1 ctx0)) =
                  Some ''TRAVIS_BRANCH=main;GERRIT_PROJECT=ui;''"
    unfolding k1 by (simp add: show_obj_def)
  from inst f1 f2 have 2: "setEnvironment show_obj ?e1 ctx0 = setEnvironment show_obj ?e2 ctx0"
    by simp
  from 1 2 show ?thesis by simp
qed

text \<open>
  The claim as stated fails in two ways. The environments \<open>envA\<close> and \<open>envB\<close> have the
  same whitelisted variables with the same values, listed in different orders, and
  their serializations differ, the serializer keeping the order of the object as
  \<open>JSON.stringify\<close> does. And with a whitelist that matches every key, the variable
  \<open>__proto__\<close> matches and is not serialized.
\<close>

theorem setEnvironment_order_and_proto:
  "set (filter (\<lambda>(key, val). whitelisted (ENVIRONMENT_WHITELIST ctx0) key) envA)
     = set (filter (\<lambda>(key, val). whitelisted (ENVIRONMENT_WHITELIST ctx0) key) envB)
 \<and> map_of envA ''TRAVIS_BRANCH'' = map_of envB ''TRAVIS_BRANCH''
 \<and> map_of envA ''GERRIT_PROJECT'' = map_of envB ''GERRIT_PROJECT''
 \<and> environment (final (setEnvironment show_obj envA ctx0))
     = Some ''TRAVIS_BRANCH=main;GERRIT_PROJECT=ui;''
 \<and> environment (final (setEnvironment show_obj envB ctx0))
     = Some ''GERRIT_PROJECT=ui;TRAVIS_BRANCH=main;''
 \<and> environment (final (setEnvironment show_obj envA ctx0))
     \<noteq> environment (final (setEnvironment show_obj envB ctx0))
 \<and> whitelisted [\<lambda>key. True] ''__proto__''
 \<and> environment (final (setEnvironment show_obj [(''__proto__'', ''x''), (''CI'', ''true'')]
                          (ctx0\<lparr>ENVIRONMENT_WHITELIST := [\<lambda>key. True]\<rparr>)))
     = Some ''CI=true;''"
  by (simp add: ctx0_def envA_def envB_def setEnvironment_def collect_def whitelisted_def
        assign_def show_obj_def step_defs Let_def insert_commute)

section \<open>Theorems: validateFiles\<close>

lemma foldl_add_sum_list:
  "foldl (\<lambda>acc l. acc + f l) (a :: nat) ls = a + sum_list (map f ls)"
  by (induction ls arbitrary: a) simp_all

lemma getFileInfo_manifest:
  "total (getFileInfo d dir) = sum_list (map contentLength (lengths (getFileInfo d dir)))"
  "length (paths (getFileInfo d dir)) = length (lengths (getFileInfo d dir))"
  "map pathname (lengths (getFileInfo d dir)) = paths (getFileInfo d dir)"
  by (simp_all add: getFileInfo_def Let_def foldl_add_sum_list comp_def split_def)

lemma validateFiles_run:
  "sourceDir (final (validateFiles d ctx)) =
      (case outputDirHint d ctx of None \<Rightarrow> sourceDir ctx | Some dir \<Rightarrow> dir)"
  "fileInfo (final (validateFiles d ctx)) =
      Some (getFileInfo d (sourceDir (final (validateFiles d ctx))))"
  "listings (trace (validateFiles d ctx)) =
      sourceDir ctx # (case outputDirHint d ctx of None \<Rightarrow> [] | Some dir \<Rightarrow> [dir])"
  "thrown (validateFiles d ctx) =
      (if isValidStorybook (getFileInfo d (sourceDir (final (validateFiles d ctx)))) then None
       else Some (Error (''Invalid Storybook build at '' @ sourceDir (final (validateFiles d ctx)))))"
  by (auto simp: validateFiles_def outputDirHint_def step_defs invalid_def Let_def
        split: option.splits)

text \<open>
  Claim C5. Every run of \<open>validateFiles\<close> leaves a file manifest on the context: the
  manifest of the directory that \<open>sourceDir\<close> names at the end. Its \<open>total\<close> is the sum of
  the content lengths and it has as many paths as lengths. The run fails, with
  \<open>Invalid Storybook build at <sourceDir>\<close>, exactly when \<open>index.html\<close> or \<open>iframe.html\<close>
  is not among the paths of that manifest. \<open>sourceDir\<close> is retargeted only when the first
  listing is invalid and the build log reports an output directory; the run then lists
  that directory and nothing further, so validation is retried exactly once.
\<close>

theorem validateFiles_manifest:
  "(\<exists>m. fileInfo (final (validateFiles d ctx)) = Some m
       \<and> m = getFileInfo d (sourceDir (final (validateFiles d ctx)))
       \<and> total m = sum_list (map contentLength (lengths m))
       \<and> length (paths m) = length (lengths m)
       \<and> thrown (validateFiles d ctx) =
           (if ''index.html'' \<in> set (paths m) \<and> ''iframe.html'' \<in> set (paths m) then None
            else Some (Error (''Invalid Storybook build at ''
                              @ sourceDir (final (validateFiles d ctx))))))
 \<and> sourceDir (final (validateFiles d ctx)) =
      (case outputDirHint d ctx of None \<Rightarrow> sourceDir ctx | Some dir \<Rightarrow> dir)
 \<and> listings (trace (validateFiles d ctx)) =
      sourceDir ctx # (case outputDirHint d ctx of None \<Rightarrow> [] | Some dir \<Rightarrow> [dir])"
  using validateFiles_run [of d ctx] getFileInfo_manifest [of d "sourceDir (final (validateFiles d ctx))"]
  by (simp add: isValidStorybook_def)

lemma getOutputDir_log:
  "getOutputDir ''info => Output directory: /var/storybook-static'' = Some ''/var/storybook-static''"
  by (simp add: getOutputDir_def)

theorem validateFiles_manifest_witness:
  "fileInfo (final (validateFiles disk0 pipeline0)) = Some manifest0
 \<and> thrown (validateFiles disk0 pipeline0) = None
 \<and> thrown (validateFiles disk_moved pipeline0) = Some (Error ''Invalid Storybook build at /static/'')
 \<and> listings (trace (validateFiles disk_moved pipeline0)) = [''/static/'']
 \<and> thrown (validateFiles disk_moved (pipeline0\<lparr>buildLogFile := Some ''build-storybook.log''\<rparr>)) = None
 \<and> sourceDir (final (validateFiles disk_moved
      (pipeline0\<lparr>buildLogFile := Some ''build-storybook.log''\<rparr>))) = ''/var/storybook-static''
 \<and> listings (trace (validateFiles disk_moved
      (pipeline0\<lparr>buildLogFile := Some ''build-storybook.log''\<rparr>)))
     = [''/static/'', ''/var/storybook-static'']"
proof -
  let ?logged = "pipeline0\<lparr>buildLogFile := Some ''build-storybook.log''\<rparr>"
  have i0: "getFileInfo disk0 ''/static/'' = manifest0"
    by (simp add: getFileInfo_def disk0_def manifest0_def joinPath_def)
  have i1: "getFileInfo disk_moved ''/static/'' = \<lparr>paths = [], lengths = [], total = 0\<rparr>"
    by (simp add: getFileInfo_def disk_moved_def)
  have i2: "paths (getFileInfo disk_moved ''/var/storybook-static'')
              = [''iframe.html'', ''index.html'', ''static/main.js'']"
    by (simp add: getFileInfo_def disk_moved_def joinPath_def)
  have h0: "outputDirHint disk0 pipeline0 = None"
    by (simp add: outputDirHint_def pipeline0_def i0 isValidStorybook_def manifest0_def)
  have h1: "outputDirHint disk_moved pipeline0 = None"
    by (simp add: outputDirHint_def pipeline0_def)
  have r: "readFile disk_moved ''build-storybook.log''
             = Some ''info => Output directory: /var/storybook-static''"
    by (simp add: disk_moved_def)
  have h2: "outputDirHint disk_moved ?logged = Some ''/var/storybook-static''"
    by (simp add: outputDirHint_def pipeline0_def i1 isValidStorybook_def r getOutputDir_log)
  have s: "sourceDir pipeline0 = ''/static/''" "sourceDir ?logged = ''/static/''"
    by (simp_all add: pipeline0_def)
  from validateFiles_manifest [of disk0 pipeline0] h0 s i0
  have a: "fileInfo (final (validateFiles disk0 pipeline0)) = Some manifest0
         \<and> thrown (validateFiles disk0 pipeline0) = None"
    by (auto simp: manifest0_def)
  from validateFiles_manifest [of disk_moved pipeline0] h1 s i1
  have b: "thrown (validateFiles disk_moved pipeline0)
             = Some (Error ''Invalid Storybook build at /static/'')
         \<and> listings (trace (validateFiles disk_moved pipeline0)) = [''/static/'']"
    by auto
  from validateFiles_manifest [of disk_moved ?logged] h2 s i2
  have c: "thrown (validateFiles disk_moved ?logged) = None
         \<and> sourceDir (final (validateFiles disk_moved ?logged)) = ''/var/storybook-static''
         \<and> listings (trace (validateFiles disk_moved ?logged))
             = [''/static/'', ''/var/storybook-static'']"
    by auto
  from a b c show ?thesis by simp
qed


section \<open>Theorems: traceChangedFiles\<close>

lemma trace_bail:
  assumes "findChangedDependencies t
             (remdups (concat (map manifestFiles (packageManifestChanges ctx)))) = Inl err"
    and "findChangedPackageFiles t (tracedManifestChanges t ctx) = Inr reported"
    and "reported \<noteq> []"
  shows "traceChangedFiles t ctx =
          \<lparr>thrown = None,
           final = ctx\<lparr>bailReason := Some (ChangedPackageFiles reported)\<rparr>,
           trace = [FindChangedDependencies
                      (remdups (concat (map manifestFiles (packageManifestChanges ctx)))),
                    FindChangedPackageFiles (tracedManifestChanges t ctx)]\<rparr>"
  using assms by (simp add: traceChangedFiles_def step_defs Let_def)



text \<open>
  Claim C1, as the model and the test have it. When the exact dependency resolver fails
  and the coarse check, run on the manifest changes left after the untraced exclusions,
  reports at least one file, the run sets \<open>bailReason\<close> to \<open>changedPackageFiles\<close> with
  exactly the files the coarse check reports, returns without consulting the dependency
  graph (neither the stats file is read nor \<open>getDependentStoryFiles\<close> called) and leaves
  \<open>affectedStoryFiles\<close> as it was.
\<close>

theorem traceChangedFiles_bails_on_manifest_change:
  assumes "findChangedDependencies t
             (remdups (concat (map manifestFiles (packageManifestChanges ctx)))) = Inl err"
    and "findChangedPackageFiles t (tracedManifestChanges t ctx) = Inr reported"
    and "reported \<noteq> []"
  shows "bailReason (final (traceChangedFiles t ctx)) = Some (ChangedPackageFiles reported)
       \<and> \<not> consultsGraph (trace (traceChangedFiles t ctx))
       \<and> trace (traceChangedFiles t ctx) =
           [FindChangedDependencies
              (remdups (concat (map manifestFiles (packageManifestChanges ctx)))),
            FindChangedPackageFiles (tracedManifestChanges t ctx)]
       \<and> affectedStoryFiles (final (traceChangedFiles t ctx)) = affectedStoryFiles ctx
       \<and> thrown (traceChangedFiles t ctx) = None"
  by (simp add: trace_bail [OF assms])

text \<open>
  Two runs of the theorem: the run of the test (no exclusion, the coarse check reports
  \<open>./package.json\<close>), and a run in which \<open>untraced\<close> removes \<open>./package.json\<close> before the
  coarse check, which then sees and reports \<open>./docs/package.json\<close> only.
\<close>

theorem traceChangedFiles_bails_on_manifest_change_witness:
  "bailReason (final (traceChangedFiles
      (tracer0\<lparr>findChangedPackageFiles := \<lambda>changes. Inr [''./package.json'']\<rparr>) pipeline0))
     = Some (ChangedPackageFiles [''./package.json''])
 \<and> \<not> consultsGraph (trace (traceChangedFiles
      (tracer0\<lparr>findChangedPackageFiles := \<lambda>changes. Inr [''./package.json'']\<rparr>) pipeline0))
 \<and> tracedManifestChanges tracer_all pipeline_docs
     = [\<lparr>commit = ''abcdef'', manifestFiles = [''./docs/package.json'']\<rparr>]
 \<and> bailReason (final (traceChangedFiles tracer_all pipeline_docs))
     = Some (ChangedPackageFiles [''./docs/package.json''])
 \<and> \<not> consultsGraph (trace (traceChangedFiles tracer_all pipeline_docs))"
proof -
  let ?t = "tracer0\<lparr>findChangedPackageFiles := \<lambda>changes. Inr [''./package.json'']\<rparr>"
  have traced: "tracedManifestChanges tracer_all pipeline_docs
                  = [\<lparr>commit = ''abcdef'', manifestFiles = [''./docs/package.json'']\<rparr>]"
    by (simp add: tracedManifestChanges_def matchesAny_def tracer_all_def tracer0_def
          pipeline_docs_def pipeline0_def)
  have r1: "findChangedDependencies ?t
              (remdups (concat (map manifestFiles (packageManifestChanges pipeline0))))
              = Inl (Error ''no lockfile'')"
    and r2: "findChangedDependencies tracer_all
              (remdups (concat (map manifestFiles (packageManifestChanges pipeline_docs))))
              = Inl (Error ''no lockfile'')"
    by (simp_all add: tracer_all_def tracer0_def)
  have c1: "findChangedPackageFiles ?t (tracedManifestChanges ?t pipeline0)
              = Inr [''./package.json'']"
    by simp
  have c2: "findChangedPackageFiles tracer_all (tracedManifestChanges tracer_all pipeline_docs)
              = Inr [''./docs/package.json'']"
    unfolding traced by (simp add: tracer_all_def)
  from traceChangedFiles_bails_on_manifest_change [OF r1 c1]
       traceChangedFiles_bails_on_manifest_change [OF r2 c2] traced
  show ?thesis by simp
qed

text \<open>
  The claim as stated fails on the run of the test \<open>continues story file tracing if no
  dependencies are changed in package.json\<close>: the resolver fails, no path is excluded, so
  the changed manifest \<open>./package.json\<close> remains after the untraced filtering; the coarse
  check reports nothing, and the run does not bail but consults the graph and selects
  story files, as the test asserts.
\<close>

theorem traceChangedFiles_no_bail_with_manifest_left:
  "findChangedDependencies tracer0
     (remdups (concat (map manifestFiles (packageManifestChanges pipeline0))))
     = Inl (Error ''no lockfile'')
 \<and> untraced pipeline0 = []
 \<and> tracedManifestChanges tracer0 pipeline0
     = [\<lparr>commit = ''abcdef'', manifestFiles = [''./package.json'']\<rparr>]
 \<and> bailReason (final (traceChangedFiles tracer0 pipeline0)) = None
 \<and> consultsGraph (trace (traceChangedFiles tracer0 pipeline0))
 \<and> affectedStoryFiles (final (traceChangedFiles tracer0 pipeline0)) = Some [''123'']"
  by (simp add: tracer0_def pipeline0_def traceChangedFiles_def projectChangedFiles_def
        tracedManifestChanges_def tracedFiles_def matchesAny_def step_defs Let_def)



section \<open>Theorems: uploadStorybook, archive mode\<close>

lemma puts_append: "puts (xs @ ys) = puts xs @ puts ys"
  by (induction xs rule: puts.induct) simp_all

lemma puts_replicate: "puts (replicate n (Put target headers)) = replicate n (target, headers)"
  by (induction n) simp_all

lemma transfer_puts:
  "puts (snd (snd (transfer u target headers s))) =
     puts (snd s) @ replicate (case find (putOk u target) [0 ..< Suc (retries u)] of
                                 Some k \<Rightarrow> Suc k | None \<Rightarrow> Suc (retries u)) (target, headers)"
  "fst (snd (transfer u target headers s)) = fst s"
  "fst (transfer u target headers s) = (find (putOk u target) [0 ..< Suc (retries u)] \<noteq> None)"
  by (simp_all add: transfer_def puts_append puts_replicate split: option.splits)


lemma find_upto_iff:
  "(find P [0 ..< Suc n] \<noteq> None) \<longleftrightarrow> (\<exists>k \<le> n. P k)"
proof -
  have "(\<exists>x \<in> set [0 ..< Suc n]. P x) \<longleftrightarrow> (\<exists>k \<le> n. P k)"
    by (metis atLeast0LessThan lessThan_iff less_Suc_eq_le set_upt)
  then show ?thesis by (simp only: find_None_iff Bex_def not_not)
qed

text \<open>
  Claim C7. In a run of the archive mode in which the archive is made and the upload
  target obtained, every PUT issued goes to the signed URL with \<open>content-type:
  application/zip\<close> and a \<open>content-length\<close> that is the archive's own size, and at least
  one is issued. The run returns normally exactly when a PUT within the retry budget is
  answered ok and the sentinel confirms; \<open>uploadedBytes\<close> is then the size of the
  archive, whatever the total of the manifest is, and is left untouched otherwise.
\<close>

theorem uploadStorybook_archive:
  assumes "makeZipFile u ctx = Inr zipped"
    and "getZipUploadUrl u (buildId ctx) = Inr target"
  shows "set (puts (trace (uploadStorybook u ctx))) =
           {(url target, [(''content-type'', ''application/zip''),
                          (''content-length'', decimal (archiveSize zipped))])}
       \<and> uploadedBytes (final (uploadStorybook u ctx)) =
           (if thrown (uploadStorybook u ctx) = None then Some (archiveSize zipped)
            else uploadedBytes ctx)
       \<and> (thrown (uploadStorybook u ctx) = None \<longleftrightarrow>
            (\<exists>k \<le> retries u. putOk u (url target) k)
            \<and> waitForSentinel u (sentinelUrl target) = Inr ())"
proof -
  let ?H = "[(''content-type'', ''application/zip''),
             (''content-length'', decimal (archiveSize zipped))]"
  let ?s2 = "emit (GetZipUploadUrl (buildId ctx)) (emit MakeZipFile (ctx, []))"
  let ?sent = "transfer u (url target) ?H ?s2"
  have p: "set (puts (snd (snd ?sent))) = {(url target, ?H)}"
    by (simp add: transfer_puts emit_def split: option.splits)
  have c: "fst (snd ?sent) = ctx"
    by (simp add: transfer_puts emit_def)
  have ok: "fst ?sent \<longleftrightarrow> (\<exists>k \<le> retries u. putOk u (url target) k)"
    by (simp only: transfer_puts find_upto_iff)
  show ?thesis
  proof (cases "fst ?sent")
    case False
    then have "uploadStorybook u ctx = throw (Error ''Failed to upload the archive'') (snd ?sent)"
      using assms by (simp add: uploadStorybook_def Let_def)
    then show ?thesis using p c ok False by (simp add: throw_def)
  next
    case True
    show ?thesis
    proof (cases "waitForSentinel u (sentinelUrl target)")
      case (Inl err)
      then have "uploadStorybook u ctx =
                   throw err (emit (WaitForSentinel (sentinelUrl target)) (snd ?sent))"
        using assms True by (simp add: uploadStorybook_def Let_def)
      then show ?thesis using p c ok True Inl
        by (simp add: throw_def emit_def puts_append)
    next
      case (Inr unit)
      then have "uploadStorybook u ctx =
                   return (modify (\<lambda>c. c\<lparr>uploadedBytes := Some (archiveSize zipped)\<rparr>)
                            (emit (WaitForSentinel (sentinelUrl target)) (snd ?sent)))"
        using assms True by (simp add: uploadStorybook_def Let_def)
      then show ?thesis using p c ok True Inr
        by (simp add: return_def modify_def emit_def puts_append)
    qed
  qed
qed

lemma decimal_80: "decimal 80 = ''80''"
  by code_simp

theorem uploadStorybook_archive_witness:
  "total manifest0 = 84
 \<and> thrown (uploadStorybook uploader0 (pipeline0\<lparr>fileInfo := Some manifest0\<rparr>)) = None
 \<and> uploadedBytes (final (uploadStorybook uploader0 (pipeline0\<lparr>fileInfo := Some manifest0\<rparr>))) = Some 80
 \<and> set (puts (trace (uploadStorybook uploader0 (pipeline0\<lparr>fileInfo := Some manifest0\<rparr>)))) =
     {(''https://asdqwe.chromatic.com/storybook.zip'',
       [(''content-type'', ''application/zip''), (''content-length'', ''80'')])}"
proof -
  let ?ctx = "pipeline0\<lparr>fileInfo := Some manifest0\<rparr>"
  let ?zipped = "\<lparr>archivePath = ''storybook.zip'', archiveSize = 80\<rparr>"
  let ?target = "\<lparr>domain = ''https://asdqwe.chromatic.com'',
                  url = ''https://asdqwe.chromatic.com/storybook.zip'',
                  sentinelUrl = ''https://asdqwe.chromatic.com/upload.txt''\<rparr>"
  have z: "makeZipFile uploader0 ?ctx = Inr ?zipped"
    and t: "getZipUploadUrl uploader0 (buildId ?ctx) = Inr ?target"
    by (simp_all add: uploader0_def)
  have ok: "(\<exists>k \<le> retries uploader0. putOk uploader0 (url ?target) k)
            \<and> waitForSentinel uploader0 (sentinelUrl ?target) = Inr ()"
    by (auto simp: uploader0_def)
  from uploadStorybook_archive [OF z t] ok show ?thesis
    by (simp add: decimal_80 manifest0_def)
qed

end
